theory Spec2Isabelle
  imports Complex_Main
begin

section \<open>Data model of \<open>logging_service.py\<close>\<close>

text \<open>
  The repository wires vendor SDK objects together. The SDK constructors are modelled as
  data that records the arguments the repository's code passes to them; what the SDK does
  with them afterwards is outside the model. Python objects that are compared by identity
  (providers, logging handlers) carry an object id taken from an allocation counter of the
  process. The SDK functions \<open>set_logger_provider\<close> and \<open>set_tracer_provider\<close> are
  modelled by the list of the calls made to them, in order.
\<close>

datatype LogLevels = DEBUG | INFO | WARNING | ERROR | CRITICAL

record ConfigApplicationInsights =
  APPLICATIONINSIGHTS_CONNECTION_STRING :: string
  LOGGING_LEVEL :: LogLevels
  LOGGING_ENABLED :: bool

text \<open>The attributes handed to \<open>Resource.create\<close>.\<close>

record Resource =
  attr_service_name :: string
  attr_service_instance_id :: string

datatype LogExporter = ConsoleLogExporter | AzureMonitorLogExporter string

datatype SpanExporter = ConsoleSpanExporter | AzureMonitorTraceExporter string

text \<open>
  The processor class is a constructor argument of the service
  (\<open>Type[LogRecordProcessor]\<close>, \<open>Type[SpanProcessor]\<close>); an instance is the class
  applied to one exporter.
\<close>

datatype LogRecordProcessorClass =
  BatchLogRecordProcessor | SimpleLogRecordProcessor | OtherLogRecordProcessor string

datatype SpanProcessorClass =
  BatchSpanProcessor | SimpleSpanProcessor | OtherSpanProcessor string

record LogRecordProcessor =
  lrp_class :: LogRecordProcessorClass
  lrp_exporter :: LogExporter

record SpanProcessor =
  sp_class :: SpanProcessorClass
  sp_exporter :: SpanExporter

record LoggerProvider =
  lp_id :: nat
  lp_resource :: Resource
  lp_processors :: "LogRecordProcessor list"

datatype Sampler = ApplicationInsightsSampler real

record TracerProvider =
  tp_id :: nat
  tp_sampler :: Sampler
  tp_resource :: Resource
  tp_processors :: "SpanProcessor list"

record Tracer =
  tracer_of_provider :: TracerProvider
  instrumenting_module_name :: string

text \<open>
  Handlers of Python's \<open>logging\<close> module: the console handler writes to stdout with a
  formatter, the Azure handler forwards to a logger provider.
\<close>

datatype HandlerKind = StreamHandler_stdout string | LoggingHandler LoggerProvider

record Handler =
  h_id :: nat
  h_name :: string
  h_level :: LogLevels
  h_kind :: HandlerKind

text \<open>A \<open>logging.Logger\<close>: its level (\<open>None\<close> is NOTSET) and its handlers.\<close>

record Logger =
  level :: "LogLevels option"
  handlers :: "Handler list"

text \<open>
  The process-wide state: the loggers of the \<open>logging\<close> module by name (what
  \<open>logging.getLogger(name)\<close> returns; a name never asked for is a logger with no level
  and no handler), the calls made to \<open>set_logger_provider\<close> and
  \<open>set_tracer_provider\<close>, and the allocation counter.
\<close>

record process =
  logging_loggers :: "string \<Rightarrow> Logger"
  set_logger_provider_calls :: "LoggerProvider list"
  set_tracer_provider_calls :: "TracerProvider list"
  next_id :: nat

text \<open>The fields of a \<open>LoggingService\<close> instance, as \<open>__init__\<close> sets them.\<close>

record LoggingService =
  config :: ConfigApplicationInsights
  console_log_exporter :: bool
  console_span_exporter :: bool
  console_logger :: bool
  formatter :: string
  service_name :: string
  service_instance_name :: string
  log_record_processor :: LogRecordProcessorClass
  span_processor :: SpanProcessorClass
  loggers :: "string list"
  logger_provider :: "LoggerProvider option"
  tracer_provider :: "TracerProvider option"
  sampling_ratio :: real

datatype error = ValueError string

section \<open>Operations of \<open>LoggingService\<close>\<close>

definition default_formatter :: string where
  "default_formatter = ''%(levelname)s [%(asctime)s] {%(module)s} %(message)s''"

text \<open>
  \<open>__init__\<close>: \<open>config\<close> and \<open>formatter\<close> are optional; a missing \<open>config\<close> is
  read from the environment (the parameter \<open>env_config\<close>).
\<close>

definition LoggingService_init ::
  "ConfigApplicationInsights \<Rightarrow> string \<Rightarrow> string \<Rightarrow> ConfigApplicationInsights option \<Rightarrow>
   bool \<Rightarrow> bool \<Rightarrow> bool \<Rightarrow> string option \<Rightarrow> LogRecordProcessorClass \<Rightarrow>
   SpanProcessorClass \<Rightarrow> real \<Rightarrow> LoggingService" where
  "LoggingService_init env_config sname siname cfg cle cse cl fmt lrp sp ratio =
     \<lparr>config = (case cfg of Some c \<Rightarrow> c | None \<Rightarrow> env_config),
      console_log_exporter = cle,
      console_span_exporter = cse,
      console_logger = cl,
      formatter = (case fmt of Some f \<Rightarrow> f | None \<Rightarrow> default_formatter),
      service_name = sname,
      service_instance_name = siname,
      log_record_processor = lrp,
      span_processor = sp,
      loggers = [],
      logger_provider = None,
      tracer_provider = None,
      sampling_ratio = ratio\<rparr>"

definition init_azure_log_exporter :: "ConfigApplicationInsights \<Rightarrow> LogExporter" where
  "init_azure_log_exporter c = AzureMonitorLogExporter (APPLICATIONINSIGHTS_CONNECTION_STRING c)"

definition init_azure_span_exporter :: "ConfigApplicationInsights \<Rightarrow> SpanExporter" where
  "init_azure_span_exporter c = AzureMonitorTraceExporter (APPLICATIONINSIGHTS_CONNECTION_STRING c)"

definition init_console_log_exporter :: LogExporter where
  "init_console_log_exporter = ConsoleLogExporter"

definition init_console_span_exporter :: SpanExporter where
  "init_console_span_exporter = ConsoleSpanExporter"

definition add_log_record_processor :: "LogRecordProcessor \<Rightarrow> LoggerProvider \<Rightarrow> LoggerProvider" where
  "add_log_record_processor x lp = lp\<lparr>lp_processors := lp_processors lp @ [x]\<rparr>"

definition add_span_processor :: "SpanProcessor \<Rightarrow> TracerProvider \<Rightarrow> TracerProvider" where
  "add_span_processor x tp = tp\<lparr>tp_processors := tp_processors tp @ [x]\<rparr>"

text \<open>
  \<open>setup_logger_provider\<close>: builds the resource, a new provider, the exporters (the
  console one if asked for, the Azure one always), one processor per exporter, registers
  the processors, calls \<open>set_logger_provider\<close>, stores the provider in the instance and
  returns it. There is no check of \<open>self.logger_provider\<close> in it.
\<close>

definition setup_logger_provider ::
  "LoggingService \<Rightarrow> process \<Rightarrow> LoggerProvider \<times> LoggingService \<times> process" where
  "setup_logger_provider self p =
     (let resource = \<lparr>attr_service_name = service_name self,
                      attr_service_instance_id = service_instance_name self\<rparr>;
          new_provider = \<lparr>lp_id = next_id p, lp_resource = resource, lp_processors = []\<rparr>;
          log_exporters =
            (if console_log_exporter self then [init_console_log_exporter] else [])
            @ [init_azure_log_exporter (config self)];
          log_records_processors =
            map (\<lambda>e. \<lparr>lrp_class = log_record_processor self, lrp_exporter = e\<rparr>) log_exporters;
          provider = fold add_log_record_processor log_records_processors new_provider;
          p' = p\<lparr>set_logger_provider_calls := set_logger_provider_calls p @ [provider],
                 next_id := Suc (next_id p)\<rparr>
      in (provider, self\<lparr>logger_provider := Some provider\<rparr>, p'))"

text \<open>
  \<open>setup_tracer_provider(sampling_ratio=1.0)\<close>: the argument is optional, \<open>None\<close>
  stands for a call without it. The Azure exporter is added only if
  \<open>config.LOGGING_ENABLED\<close>.
\<close>

definition setup_tracer_provider ::
  "real option \<Rightarrow> LoggingService \<Rightarrow> process \<Rightarrow> TracerProvider \<times> LoggingService \<times> process" where
  "setup_tracer_provider ratio_arg self p =
     (let ratio = (case ratio_arg of Some r \<Rightarrow> r | None \<Rightarrow> 1);
          resource = \<lparr>attr_service_name = service_name self,
                      attr_service_instance_id = service_instance_name self\<rparr>;
          new_provider = \<lparr>tp_id = next_id p, tp_sampler = ApplicationInsightsSampler ratio,
                          tp_resource = resource, tp_processors = []\<rparr>;
          span_exporters =
            (if console_span_exporter self then [init_console_span_exporter] else [])
            @ (if LOGGING_ENABLED (config self) then [init_azure_span_exporter (config self)] else []);
          span_processors =
            map (\<lambda>e. \<lparr>sp_class = span_processor self, sp_exporter = e\<rparr>) span_exporters;
          provider = fold add_span_processor span_processors new_provider;
          p' = p\<lparr>set_tracer_provider_calls := set_tracer_provider_calls p @ [provider],
                 next_id := Suc (next_id p)\<rparr>
      in (provider, self\<lparr>tracer_provider := Some provider\<rparr>, p'))"

definition initialize_console_log_handler :: "LoggingService \<Rightarrow> process \<Rightarrow> Handler \<times> process" where
  "initialize_console_log_handler self p =
     (\<lparr>h_id = next_id p, h_name = ''Console Handler'',
       h_level = LOGGING_LEVEL (config self),
       h_kind = StreamHandler_stdout (formatter self)\<rparr>,
      p\<lparr>next_id := Suc (next_id p)\<rparr>)"

text \<open>
  \<open>Logger.setLevel\<close> and \<open>Logger.addHandler\<close> of the \<open>logging\<close> module, on the logger
  of a given name. \<open>addHandler\<close> appends a handler only if that handler object is not
  among the logger's handlers yet.
\<close>

definition setLevel :: "string \<Rightarrow> LogLevels \<Rightarrow> process \<Rightarrow> process" where
  "setLevel name lvl p =
     p\<lparr>logging_loggers := (logging_loggers p)(name := (logging_loggers p name)\<lparr>level := Some lvl\<rparr>)\<rparr>"

definition addHandler :: "string \<Rightarrow> Handler \<Rightarrow> process \<Rightarrow> process" where
  "addHandler name h p =
     (let l = logging_loggers p name
      in if h_id h \<in> set (map h_id (handlers l)) then p
         else p\<lparr>logging_loggers := (logging_loggers p)(name := l\<lparr>handlers := handlers l @ [h]\<rparr>)\<rparr>)"

definition root_logger_message :: string where
  "root_logger_message =
     ''Don't use the root logger. For more information, see: '' @
     ''https://github.com/Azure/azure-sdk-for-python/issues/34787''"

text \<open>
  \<open>get_logger(logger_name, additional_loggers=None)\<close>. A logger handle is the logger's
  name; the additional loggers are given by their names. The result is the raised error
  or the handle, with the instance and the process as the call leaves them.
\<close>

definition get_logger ::
  "string \<Rightarrow> string list option \<Rightarrow> LoggingService \<Rightarrow> process \<Rightarrow>
   (error + string) \<times> LoggingService \<times> process" where
  "get_logger logger_name additional_loggers self p =
     (if logger_name = [] then (Inl (ValueError root_logger_message), self, p)
      else if logger_name \<in> set (loggers self) then (Inr logger_name, self, p)
      else
        let (handlers1, p1) =
              (if console_logger self
               then (let (h, q) = initialize_console_log_handler self p in ([h], q))
               else ([], p));
            (handlers2, self2, p2) =
              (if LOGGING_ENABLED (config self)
               then (let (provider, self1, q1) =
                           (case logger_provider self of
                              None \<Rightarrow> setup_logger_provider self p1
                            | Some lp \<Rightarrow> (lp, self, p1));
                         azure_logging_handler =
                           \<lparr>h_id = next_id q1, h_name = ''Azure Monitor Handler'',
                            h_level = LOGGING_LEVEL (config self1),
                            h_kind = LoggingHandler provider\<rparr>
                     in (handlers1 @ [azure_logging_handler], self1,
                         q1\<lparr>next_id := Suc (next_id q1)\<rparr>))
               else (handlers1, self, p1));
            lvl = LOGGING_LEVEL (config self2);
            p3 = setLevel logger_name lvl p2;
            p4 = fold (addHandler logger_name) handlers2 p3;
            self3 = self2\<lparr>loggers := loggers self2 @ [logger_name]\<rparr>;
            p5 = (case additional_loggers of
                    None \<Rightarrow> p4
                  | Some als \<Rightarrow>
                      fold (\<lambda>a q. fold (addHandler a) handlers2 (setLevel a lvl q)) als p4)
        in (Inr logger_name, self3, p5))"

text \<open>
  \<open>get_tracer(module_name)\<close>: sets the trace pipeline up with \<open>self.sampling_ratio\<close>
  when the instance has no tracer provider, then asks the provider for a tracer.
\<close>

definition get_tracer ::
  "string \<Rightarrow> LoggingService \<Rightarrow> process \<Rightarrow> Tracer \<times> LoggingService \<times> process" where
  "get_tracer module_name self p =
     (case tracer_provider self of
        None \<Rightarrow>
          (let (tp, self1, p1) = setup_tracer_provider (Some (sampling_ratio self)) self p
           in (\<lparr>tracer_of_provider = tp, instrumenting_module_name = module_name\<rparr>, self1, p1))
      | Some tp \<Rightarrow>
          (\<lparr>tracer_of_provider = tp, instrumenting_module_name = module_name\<rparr>, self, p))"

text \<open>
  Runs of the public operations, for properties of the states an instance can reach.
  \<open>is_get\<close> holds of the two issuing operations, which set a pipeline up lazily.
\<close>

datatype command =
  GetLogger string "string list option"
| GetTracer string
| SetupLoggerProvider
| SetupTracerProvider "real option"


fun exec :: "command \<Rightarrow> LoggingService \<times> process \<Rightarrow> LoggingService \<times> process" where
  "exec (GetLogger n als) (self, p) = snd (get_logger n als self p)"
| "exec (GetTracer m) (self, p) = snd (get_tracer m self p)"
| "exec SetupLoggerProvider (self, p) = snd (setup_logger_provider self p)"
| "exec (SetupTracerProvider r) (self, p) = snd (setup_tracer_provider r self p)"

fun run :: "command list \<Rightarrow> LoggingService \<times> process \<Rightarrow> LoggingService \<times> process" where
  "run [] st = st"
| "run (c # cs) st = run cs (exec c st)"

text \<open>
  The instance that \<open>main.py\<close> constructs (service name and instance name given, all
  other arguments at their defaults), and a process in which nothing has been logged or
  installed yet.
\<close>

definition main_logging_service :: "ConfigApplicationInsights \<Rightarrow> LoggingService" where
  "main_logging_service env_config =
     LoggingService_init env_config ''ServiceName'' ''ServiceInstanceName'' None
       False False True None BatchLogRecordProcessor BatchSpanProcessor 1"

definition fresh_process :: process where
  "fresh_process =
     \<lparr>logging_loggers = (\<lambda>_. \<lparr>level = None, handlers = []\<rparr>),
      set_logger_provider_calls = [], set_tracer_provider_calls = [], next_id = 0\<rparr>"

definition enabled_config :: ConfigApplicationInsights where
  "enabled_config =
     \<lparr>APPLICATIONINSIGHTS_CONNECTION_STRING = ''InstrumentationKey=00000000'',
      LOGGING_LEVEL = INFO, LOGGING_ENABLED = True\<rparr>"

definition disabled_config :: ConfigApplicationInsights where
  "disabled_config = enabled_config\<lparr>LOGGING_ENABLED := False\<rparr>"

definition initial_state :: "LoggingService \<times> process" where
  "initial_state = (main_logging_service enabled_config, fresh_process)"

definition initial_state_disabled :: "LoggingService \<times> process" where
  "initial_state_disabled = (main_logging_service disabled_config, fresh_process)"


section \<open>Data model and operations of \<open>db.py\<close>\<close>

record Settings =
  settings_APPLICATIONINSIGHTS_CONNECTION_STRING :: string
  COSMOSDB_ACCOUNT_NAME :: string
  COSMOSDB_CONTAINER_NAME :: string
  COSMOSDB_DATABASE_NAME :: string
  COSMOSDB_PARTITION_KEY :: string
  COSMOSDB_ACCESS_KEY :: "string option"

definition host :: "Settings \<Rightarrow> string" where
  "host s = ''https://'' @ COSMOSDB_ACCOUNT_NAME s @ ''.documents.azure.com:443/''"

datatype Credential = AccessKey string | DefaultAzureCredential

record CosmosClient =
  url :: string
  credential :: Credential

record DatabaseProxy =
  db_client :: CosmosClient
  database :: string

record ContainerProxy =
  container_database :: DatabaseProxy
  container :: string

record DB =
  settings :: Settings
  cosmos_client :: CosmosClient
  database_client :: DatabaseProxy
  container_client :: ContainerProxy

text \<open>
  \<open>_init_connection\<close>. The credential is chosen by the truth value of
  \<open>COSMOSDB_ACCESS_KEY\<close>: in Python \<open>None\<close> and the empty string are both false.
\<close>

definition init_connection :: "Settings \<Rightarrow> DB" where
  "init_connection s =
     (let client = \<lparr>url = host s,
                    credential = (case COSMOSDB_ACCESS_KEY s of
                                    None \<Rightarrow> DefaultAzureCredential
                                  | Some k \<Rightarrow> if k \<noteq> [] then AccessKey k
                                              else DefaultAzureCredential)\<rparr>;
          dbc = \<lparr>db_client = client, database = COSMOSDB_DATABASE_NAME s\<rparr>;
          cc = \<lparr>container_database = dbc, container = COSMOSDB_CONTAINER_NAME s\<rparr>
      in \<lparr>settings = s, cosmos_client = client, database_client = dbc, container_client = cc\<rparr>)"

text \<open>\<open>DB.__init__\<close>: missing settings are read from the environment (\<open>env_settings\<close>).\<close>

definition DB_init :: "Settings \<Rightarrow> Settings option \<Rightarrow> DB" where
  "DB_init env_settings arg =
     init_connection (case arg of Some s \<Rightarrow> s | None \<Rightarrow> env_settings)"

text \<open>Settings with a given access key, all other fields fixed.\<close>

definition example_settings :: "string option \<Rightarrow> Settings" where
  "example_settings key =
     \<lparr>settings_APPLICATIONINSIGHTS_CONNECTION_STRING = ''InstrumentationKey=00000000'',
      COSMOSDB_ACCOUNT_NAME = ''account'', COSMOSDB_CONTAINER_NAME = ''container'',
      COSMOSDB_DATABASE_NAME = ''database'', COSMOSDB_PARTITION_KEY = ''/partitionKey'',
      COSMOSDB_ACCESS_KEY = key\<rparr>"

section \<open>The batch section of \<open>main.py\<close>\<close>

text \<open>
  A batch operation is the tuple (operation type, positional arguments, keyword
  arguments). The call \<open>execute_item_batch\<close> belongs to the database client: it is a
  parameter of the model, returning the result list or raising. What the workflow does
  is the list of its calls to the client and of what it prints, with the exception that
  leaves it, if any.
\<close>

datatype arg = Item "(string \<times> string) list" | Str string

type_synonym batch_operation = "string \<times> arg list \<times> (string \<times> string) list"

datatype 'r exn =
  CosmosBatchOperationError int "'r list"
| OtherException string
| IndexError

datatype 'r event =
  ExecuteItemBatch "batch_operation list" string
| PrintResults "'r list"
| PrintError batch_operation 'r

definition partition :: string where
  "partition = ''partition1''"

definition batch_operations :: "batch_operation list" where
  "batch_operations =
     [(''upsert'', [Item [(''id'', ''123''), (''partitionKey'', partition)]], []),
      (''upsert'', [Item [(''id'', ''456''), (''partitionKey'', partition)]], []),
      (''read'', [Str ''123''], []),
      (''read'', [Str ''456''], [])]"

text \<open>
  Subscripting a Python list with an integer: \<open>xs[i]\<close> for \<open>0 \<le> i < len(xs)\<close>,
  \<open>xs[len(xs) + i]\<close> for \<open>-len(xs) \<le> i < 0\<close>, an \<open>IndexError\<close> for any other \<open>i\<close>.
\<close>

definition py_index :: "'a list \<Rightarrow> int \<Rightarrow> 'r exn + 'a" where
  "py_index xs i =
     (if 0 \<le> i \<and> i < int (length xs) then Inr (xs ! nat i)
      else if i < 0 \<and> - int (length xs) \<le> i then Inr (xs ! nat (int (length xs) + i))
      else Inl IndexError)"

definition main_batch ::
  "(batch_operation list \<Rightarrow> string \<Rightarrow> 'r exn + 'r list) \<Rightarrow> 'r exn option \<times> 'r event list" where
  "main_batch execute_item_batch =
     (let call = ExecuteItemBatch batch_operations partition
      in case execute_item_batch batch_operations partition of
           Inr batch_results \<Rightarrow> (None, [call, PrintResults batch_results])
         | Inl (CosmosBatchOperationError error_index operation_responses) \<Rightarrow>
             (case py_index operation_responses error_index of
                Inl e \<Rightarrow> (Some e, [call])
              | Inr error_operation_response \<Rightarrow>
                  (case py_index batch_operations error_index of
                     Inl e \<Rightarrow> (Some e, [call])
                   | Inr error_operation \<Rightarrow>
                       (None, [call, PrintError error_operation error_operation_response])))
         | Inl e \<Rightarrow> (Some e, [call]))"

section \<open>Frame and effect lemmas\<close>

lemmas model_defs =
  initial_state_def initial_state_disabled_def main_logging_service_def LoggingService_init_def
  enabled_config_def disabled_config_def fresh_process_def get_logger_def get_tracer_def
  setup_logger_provider_def setup_tracer_provider_def Let_def initialize_console_log_handler_def
  setLevel_def addHandler_def add_log_record_processor_def add_span_processor_def
  init_azure_log_exporter_def init_azure_span_exporter_def init_console_log_exporter_def
  init_console_span_exporter_def default_formatter_def

text \<open>Setting a level and adding handlers leave the provider calls and the counter alone.\<close>

lemma setLevel_frame [simp]:
  "set_logger_provider_calls (setLevel n l p) = set_logger_provider_calls p"
  "set_tracer_provider_calls (setLevel n l p) = set_tracer_provider_calls p"
  "next_id (setLevel n l p) = next_id p"
  by (simp_all add: setLevel_def)

lemma addHandler_frame [simp]:
  "set_logger_provider_calls (addHandler n h p) = set_logger_provider_calls p"
  "set_tracer_provider_calls (addHandler n h p) = set_tracer_provider_calls p"
  "next_id (addHandler n h p) = next_id p"
  by (simp_all add: addHandler_def Let_def)

lemma fold_logger_calls_frame [simp]:
  "(\<And>a q. set_logger_provider_calls (f a q) = set_logger_provider_calls q) \<Longrightarrow>
   set_logger_provider_calls (fold f xs p) = set_logger_provider_calls p"
  by (induction xs arbitrary: p) simp_all

lemma fold_tracer_calls_frame [simp]:
  "(\<And>a q. set_tracer_provider_calls (f a q) = set_tracer_provider_calls q) \<Longrightarrow>
   set_tracer_provider_calls (fold f xs p) = set_tracer_provider_calls p"
  by (induction xs arbitrary: p) simp_all

lemma setup_logger_provider_effect:
  "logger_provider (fst (snd (setup_logger_provider self p))) = Some (fst (setup_logger_provider self p))"
  "set_logger_provider_calls (snd (snd (setup_logger_provider self p))) =
     set_logger_provider_calls p @ [fst (setup_logger_provider self p)]"
  "set_tracer_provider_calls (snd (snd (setup_logger_provider self p))) = set_tracer_provider_calls p"
  "tracer_provider (fst (snd (setup_logger_provider self p))) = tracer_provider self"
  "lp_id (fst (setup_logger_provider self p)) = next_id p"
  "loggers (fst (snd (setup_logger_provider self p))) = loggers self"
  "config (fst (snd (setup_logger_provider self p))) = config self"
  "service_name (fst (snd (setup_logger_provider self p))) = service_name self"
  "service_instance_name (fst (snd (setup_logger_provider self p))) = service_instance_name self"
  by (simp_all add: setup_logger_provider_def Let_def add_log_record_processor_def)

lemma setup_tracer_provider_effect:
  "tracer_provider (fst (snd (setup_tracer_provider r self p))) = Some (fst (setup_tracer_provider r self p))"
  "set_tracer_provider_calls (snd (snd (setup_tracer_provider r self p))) =
     set_tracer_provider_calls p @ [fst (setup_tracer_provider r self p)]"
  "set_logger_provider_calls (snd (snd (setup_tracer_provider r self p))) = set_logger_provider_calls p"
  "logger_provider (fst (snd (setup_tracer_provider r self p))) = logger_provider self"
  "tp_id (fst (setup_tracer_provider r self p)) = next_id p"
  "loggers (fst (snd (setup_tracer_provider r self p))) = loggers self"
  "config (fst (snd (setup_tracer_provider r self p))) = config self"
  "service_name (fst (snd (setup_tracer_provider r self p))) = service_name self"
  "service_instance_name (fst (snd (setup_tracer_provider r self p))) = service_instance_name self"
  by (simp_all add: setup_tracer_provider_def Let_def add_span_processor_def)













lemma exec_names:
  "service_name (fst (exec c st)) = service_name (fst st) \<and>
   service_instance_name (fst (exec c st)) = service_instance_name (fst st)"
proof -
  obtain self p where st: "st = (self, p)" by (cases st)
  show ?thesis unfolding st
    by (cases c)
       (simp_all add: get_logger_def get_tracer_def Let_def initialize_console_log_handler_def
          setup_logger_provider_effect setup_tracer_provider_effect
          case_prod_beta split: option.splits)
qed

lemma run_names:
  "service_name (fst (run cs st)) = service_name (fst st) \<and>
   service_instance_name (fst (run cs st)) = service_instance_name (fst st)"
  by (induction cs arbitrary: st) (simp_all add: exec_names)






lemma py_index_in_range:
  "0 \<le> i \<Longrightarrow> i < int (length xs) \<Longrightarrow> py_index xs i = Inr (xs ! nat i)"
  by (simp add: py_index_def)

lemma batch_error_index_out_of_range:
  fixes execute_item_batch :: "batch_operation list \<Rightarrow> string \<Rightarrow> 'r exn + 'r list"
  assumes "execute_item_batch batch_operations partition =
             Inl (CosmosBatchOperationError i operation_responses)"
    and "int (length operation_responses) \<le> i"
  shows "main_batch execute_item_batch =
           (Some IndexError, [ExecuteItemBatch batch_operations partition])"
  using assms by (simp add: main_batch_def Let_def py_index_def)

section \<open>Properties\<close>

subsection \<open>C1: installing a pipeline at most once\<close>




subsection \<open>C2: lazy initialization by the issuing operations\<close>




subsection \<open>C3: the empty logger name\<close>

text \<open>
  C3: \<open>get_logger\<close> with the empty name raises the error that describes the root-logger
  misuse, and leaves the instance and the process as they were: no handler attached, no
  name registered, no pipeline initialized.
\<close>

theorem get_logger_empty_name_raises:
  "get_logger '''' additional_loggers self p = (Inl (ValueError root_logger_message), self, p)"
  by (simp add: get_logger_def)

text \<open>On the instance of \<open>main.py\<close>, with an additional logger given.\<close>

theorem get_logger_empty_name_raises_witness:
  "get_logger '''' (Some [''azure'']) (fst initial_state) (snd initial_state) =
     (Inl (ValueError root_logger_message), initial_state) \<and>
   loggers (fst initial_state) = [] \<and> logger_provider (fst initial_state) = None \<and>
   handlers (logging_loggers (snd initial_state) '''') = []"
  using get_logger_empty_name_raises [of "Some [''azure'']" "fst initial_state" "snd initial_state"]
  by (simp add: model_defs)

subsection \<open>C4: idempotence of get_logger\<close>



subsection \<open>C5: credential selection\<close>

text \<open>
  C5 as stated fails: an access key that is present but empty is false in Python, and
  the client is built with the ambient credential chain, not with the key.
\<close>

theorem credential_selection_empty_key_counterexample:
  "COSMOSDB_ACCESS_KEY (example_settings (Some '''')) = Some '''' \<and>
   credential (cosmos_client (init_connection (example_settings (Some ''''))))
     = DefaultAzureCredential \<and>
   credential (cosmos_client (init_connection (example_settings (Some ''''))))
     \<noteq> AccessKey ''''"
  by (simp add: init_connection_def example_settings_def Let_def)

text \<open>
  C5 (amended): the client is built with the access key as its credential whenever the
  key is present and not empty, and with the ambient credential chain when the key is
  absent or empty; the database and container handles are derived from that client.
\<close>

theorem credential_selection:
  "(COSMOSDB_ACCESS_KEY s = Some k \<and> k \<noteq> [] \<longrightarrow>
      credential (cosmos_client (init_connection s)) = AccessKey k \<and>
      credential (cosmos_client (DB_init env_settings (Some s))) = AccessKey k) \<and>
   (COSMOSDB_ACCESS_KEY s' = None \<or> COSMOSDB_ACCESS_KEY s' = Some [] \<longrightarrow>
      credential (cosmos_client (init_connection s')) = DefaultAzureCredential \<and>
      credential (cosmos_client (DB_init env_settings (Some s'))) = DefaultAzureCredential) \<and>
   db_client (database_client (init_connection s)) = cosmos_client (init_connection s) \<and>
   container_database (container_client (init_connection s)) = database_client (init_connection s)"
  by (auto simp add: init_connection_def DB_init_def Let_def)

text \<open>A key \<open>secret\<close>, and no key.\<close>

theorem credential_selection_witness:
  "COSMOSDB_ACCESS_KEY (example_settings (Some ''secret'')) = Some ''secret'' \<and>
   ''secret'' \<noteq> [] \<and>
   credential (cosmos_client (init_connection (example_settings (Some ''secret''))))
     = AccessKey ''secret'' \<and>
   COSMOSDB_ACCESS_KEY (example_settings None) = None \<and>
   credential (cosmos_client (init_connection (example_settings None)))
     = DefaultAzureCredential"
  using credential_selection
    [of "example_settings (Some ''secret'')" "''secret''" "example_settings None"
        "example_settings None"]
  by (simp add: example_settings_def)

subsection \<open>C6: the cloud exporter of the trace pipeline\<close>



subsection \<open>C7: reporting a failed batch\<close>

text \<open>
  C7: when the batch call raises the aggregate error with failing index \<open>i\<close>, an index
  of the error's response list and of the submitted operations, the workflow prints the
  submitted operation at index \<open>i\<close> and the response at index \<open>i\<close>, and does nothing
  else: the batch call is its only call to the client, and no exception leaves it.
\<close>

theorem batch_error_reported:
  fixes execute_item_batch :: "batch_operation list \<Rightarrow> string \<Rightarrow> 'r exn + 'r list"
  assumes "execute_item_batch batch_operations partition =
             Inl (CosmosBatchOperationError i operation_responses)"
    and "0 \<le> i" and "i < int (length operation_responses)"
    and "i < int (length batch_operations)"
  shows "main_batch execute_item_batch =
           (None, [ExecuteItemBatch batch_operations partition,
                   PrintError (batch_operations ! nat i) (operation_responses ! nat i)])"
  using assms by (simp add: main_batch_def Let_def py_index_in_range)

text \<open>The third operation (the first read) fails: index 2.\<close>

theorem batch_error_reported_witness:
  "(\<lambda>ops pk. Inl (CosmosBatchOperationError 2 [''201'', ''201'', ''404'']))
     batch_operations partition = Inl (CosmosBatchOperationError 2 [''201'', ''201'', ''404'']) \<and>
   (0::int) \<le> 2 \<and> (2::int) < int (length [''201'', ''201'', ''404'']) \<and>
   (2::int) < int (length batch_operations) \<and>
   main_batch (\<lambda>ops pk. Inl (CosmosBatchOperationError 2 [''201'', ''201'', ''404''])) =
     (None, [ExecuteItemBatch batch_operations ''partition1'',
             PrintError (''read'', [Str ''123''], []) ''404''])"
proof -
  have len: "(2::int) < int (length batch_operations)"
    by (simp add: batch_operations_def)
  have nth: "batch_operations ! nat 2 = (''read'', [Str ''123''], [])"
    by (simp add: batch_operations_def numeral_2_eq_2)
  from batch_error_reported
         [of "\<lambda>ops pk. Inl (CosmosBatchOperationError 2 [''201'', ''201'', ''404''])"
             2 "[''201'', ''201'', ''404'']", OF refl _ _ len]
  have "main_batch (\<lambda>ops pk. Inl (CosmosBatchOperationError 2 [''201'', ''201'', ''404''])) =
     (None, [ExecuteItemBatch batch_operations partition,
             PrintError (batch_operations ! nat 2) ([''201'', ''201'', ''404''] ! nat 2)])"
    by simp
  then show ?thesis using len nth by (simp add: partition_def numeral_2_eq_2)
qed

subsection \<open>C8: one resource descriptor for both pipelines\<close>

text \<open>
  C8: the resource built by \<open>setup_logger_provider\<close> and the resource built by
  \<open>setup_tracer_provider\<close> carry the same service name and instance name, those of the
  instance, whatever operations ran on the instance before either call.
\<close>

theorem resource_identical:
  "lp_resource (fst (setup_logger_provider (fst (run cs (self, p))) q)) =
     tp_resource (fst (setup_tracer_provider r (fst (run cs' (self, p'))) q')) \<and>
   lp_resource (fst (setup_logger_provider self q)) =
     \<lparr>attr_service_name = service_name self,
      attr_service_instance_id = service_instance_name self\<rparr> \<and>
   tp_resource (fst (setup_tracer_provider r self q')) =
     \<lparr>attr_service_name = service_name self,
      attr_service_instance_id = service_instance_name self\<rparr>"
proof -
  have l: "lp_resource (fst (setup_logger_provider s q)) =
     \<lparr>attr_service_name = service_name s, attr_service_instance_id = service_instance_name s\<rparr>"
    for s q
    by (simp add: setup_logger_provider_def Let_def add_log_record_processor_def)
  have t: "tp_resource (fst (setup_tracer_provider r s q)) =
     \<lparr>attr_service_name = service_name s, attr_service_instance_id = service_instance_name s\<rparr>"
    for s q
    by (simp add: setup_tracer_provider_def Let_def add_span_processor_def)
  from run_names [of cs "(self, p)"] run_names [of cs' "(self, p')"]
  show ?thesis by (simp add: l t)
qed

text \<open>On the instance of \<open>main.py\<close>, each setup after the other pipeline's issuing call.\<close>

theorem resource_identical_witness:
  "lp_resource (fst (setup_logger_provider
       (fst (run [GetTracer ''ModuleName''] initial_state))
       (snd (run [GetTracer ''ModuleName''] initial_state)))) =
     tp_resource (fst (setup_tracer_provider None
       (fst (run [GetLogger ''LoggerName'' None] initial_state))
       (snd (run [GetLogger ''LoggerName'' None] initial_state)))) \<and>
   lp_resource (fst (setup_logger_provider (fst initial_state) (snd initial_state))) =
     \<lparr>attr_service_name = ''ServiceName'', attr_service_instance_id = ''ServiceInstanceName''\<rparr>"
  using resource_identical
    [of "[GetTracer ''ModuleName'']" "main_logging_service enabled_config" fresh_process
        "snd (run [GetTracer ''ModuleName''] initial_state)" None
        "[GetLogger ''LoggerName'' None]" fresh_process
        "snd (run [GetLogger ''LoggerName'' None] initial_state)"]
    resource_identical
    [of "[]" "fst initial_state" "snd initial_state" "snd initial_state" None "[]"
        "snd initial_state" "snd initial_state"]
  by (simp add: initial_state_def main_logging_service_def LoggingService_init_def)

subsection \<open>C9: additional loggers on a repeated call\<close>



subsection \<open>C10: which sampling ratio a pipeline gets\<close>



end
